theory Spec2Isabelle
  imports Complex_Main "HOL-Library.Product_Lexorder" "HOL-Library.AList"
begin

section \<open>Values that cross the library boundary\<close>

text \<open>
  Amounts are JavaScript numbers in the handlers and decimals in the database. They are
  modelled as exact rationals: rounding, overflow and the precision of the decimal column
  are outside the model. A request body is JSON; the handlers only look at a fixed set of
  keys, so a body that is an object is a record of the raw values found under those keys,
  with \<open>JAbsent\<close> for a key that is not there (JavaScript \<open>undefined\<close>).
\<close>

datatype json = JAbsent | JNull | JBool bool | JNum rat | JStr string | JOther

text \<open>
  \<open>request.json()\<close> throws on text that is not JSON; the schemas reject JSON that is not
  an object.
\<close>

datatype 'p body = BadJson | NotObject | Object 'p

text \<open>
  A parsed optional and nullable field: JavaScript \<open>undefined\<close>, \<open>null\<close>, or a value.
\<close>

datatype 'a field = Undefined | Null | Value 'a

subsection \<open>Dates\<close>

text \<open>
  A valid JavaScript \<open>Date\<close> is represented by its UTC calendar fields, an invalid one
  (time value NaN) by \<open>None\<close>. \<open>utcMonth\<close> is 0-based as \<open>getUTCMonth()\<close> is.
\<close>

record date =
  utcFullYear :: int
  utcMonth :: nat
  utcDate :: nat
  utcMs :: nat

type_synonym jsdate = "date option"

text \<open>
  Library functions whose results the handlers consume but whose text parsing is not
  part of this repository: \<open>parseFloat\<close> (\<open>None\<close> is NaN), \<open>new Date(string)\<close>
  and \<open>String.prototype.toUpperCase\<close>.
\<close>

record lib =
  parseFloat :: "string \<Rightarrow> rat option"
  newDate :: "string \<Rightarrow> jsdate"
  toUpperCase :: "string \<Rightarrow> string"

text \<open>
  \<open>Date.UTC(year, month, 1, 0, 0, 0, 0)\<close> for a month in 0..11. A year from 0 to 99
  stands for 1900 + year (ECMAScript MakeFullYear), and a time value outside
  \<plusminus>8.64e15 ms is NaN (TimeClip): the first representable first-of-month is
  1 May -271821, the last 1 September 275760.
\<close>

definition MakeFullYear :: "int \<Rightarrow> int" where
  "MakeFullYear y = (if 0 \<le> y \<and> y \<le> 99 then 1900 + y else y)"

definition inTimeRange :: "int \<Rightarrow> nat \<Rightarrow> bool" where
  "inTimeRange yr m \<longleftrightarrow>
     (- 271821 < yr \<or> (yr = - 271821 \<and> 4 \<le> m)) \<and> (yr < 275760 \<or> (yr = 275760 \<and> m \<le> 8))"

definition Date_UTC :: "int \<Rightarrow> nat \<Rightarrow> jsdate" where
  "Date_UTC year month =
     (let yr = MakeFullYear year in
      if inTimeRange yr month
      then Some \<lparr>utcFullYear = yr, utcMonth = month, utcDate = 1, utcMs = 0\<rparr>
      else None)"

text \<open>
  \<^verbatim>\<open>const normalizeToFirstOfMonthUTC = (date: Date): Date => {
    const d = new Date(date);
    return new Date(Date.UTC(d.getUTCFullYear(), d.getUTCMonth(), 1, 0, 0, 0, 0)); };\<close>
\<close>

definition normalizeToFirstOfMonthUTC :: "jsdate \<Rightarrow> jsdate" where
  "normalizeToFirstOfMonthUTC dt =
     (case dt of None \<Rightarrow> None | Some d \<Rightarrow> Date_UTC (utcFullYear d) (utcMonth d))"

text \<open>
  What the claims call the first day of the UTC month of a date, at 00:00:00.000.
\<close>

definition firstOfMonth :: "date \<Rightarrow> date" where
  "firstOfMonth d = \<lparr>utcFullYear = utcFullYear d, utcMonth = utcMonth d, utcDate = 1, utcMs = 0\<rparr>"

text \<open>
  Dates are compared through their time values; on calendar fields that is the
  lexicographic order.
\<close>

definition timeKey :: "date \<Rightarrow> int \<times> nat \<times> nat \<times> nat" where
  "timeKey d = (utcFullYear d, utcMonth d, utcDate d, utcMs d)"

section \<open>Request validation (the Zod schemas of the balance-entry routes)\<close>

text \<open>
  The result of a \<open>z.preprocess\<close> callback on a numeric field: \<open>undefined\<close>,
  \<open>null\<close>, or a number (\<open>None\<close> for NaN).
\<close>

datatype pre = PUndefined | PNull | PNumber "rat option"

text \<open>\<^verbatim>\<open>val.replace(/,/g, '')\<close>\<close>

definition removeCommas :: "string \<Rightarrow> string" where
  "removeCommas s = filter (\<lambda>c. c \<noteq> CHR '','') s"

text \<open>
  \<open>createBalanceEntrySchema.balanceOriginal\<close>:
  \<^verbatim>\<open>(val) => (typeof val === 'string' ? parseFloat(val.replace(/,/g, ''))
            : typeof val === 'number' ? val : undefined)\<close>
\<close>

fun preBalanceCreate :: "lib \<Rightarrow> json \<Rightarrow> pre" where
  "preBalanceCreate L (JStr s) = PNumber (parseFloat L (removeCommas s))"
| "preBalanceCreate L (JNum x) = PNumber (Some x)"
| "preBalanceCreate L _ = PUndefined"

text \<open>
  \<open>updateBalanceEntrySchema.balanceOriginal\<close>:
  \<^verbatim>\<open>(val) => (val === undefined || val === null || val === '') ? undefined
            : (typeof val === 'string' ? parseFloat(val.replace(/,/g, ''))
               : typeof val === 'number' ? val : undefined)\<close>
\<close>

fun preBalanceUpdate :: "lib \<Rightarrow> json \<Rightarrow> pre" where
  "preBalanceUpdate L JAbsent = PUndefined"
| "preBalanceUpdate L JNull = PUndefined"
| "preBalanceUpdate L (JStr s) =
     (if s = [] then PUndefined else PNumber (parseFloat L (removeCommas s)))"
| "preBalanceUpdate L (JNum x) = PNumber (Some x)"
| "preBalanceUpdate L _ = PUndefined"

text \<open>
  \<open>exchangeRateToBase\<close>, the same callback in the create and the update schema:
  \<^verbatim>\<open>(val) => (val === '' || val === null || val === undefined) ? null
            : (typeof val === 'string' ? parseFloat(val.replace(/,/g, ''))
               : typeof val === 'number' ? val : undefined)\<close>
  A key that is absent reaches the callback as \<open>undefined\<close> and leaves it as \<open>null\<close>.
\<close>

fun preExchangeRate :: "lib \<Rightarrow> json \<Rightarrow> pre" where
  "preExchangeRate L JAbsent = PNull"
| "preExchangeRate L JNull = PNull"
| "preExchangeRate L (JStr s) =
     (if s = [] then PNull else PNumber (parseFloat L (removeCommas s)))"
| "preExchangeRate L (JNum x) = PNumber (Some x)"
| "preExchangeRate L _ = PUndefined"

text \<open>
  The Zod validators, \<open>None\<close> for a validation issue. \<open>z.number()\<close> rejects
  \<open>undefined\<close>, \<open>null\<close> and NaN.
\<close>

fun z_number :: "pre \<Rightarrow> rat option" where
  "z_number (PNumber (Some x)) = Some x"
| "z_number _ = None"

text \<open>\<^verbatim>\<open>z.number().positive("...").nullable().optional()\<close>\<close>

fun z_positive_nullable_optional :: "pre \<Rightarrow> rat field option" where
  "z_positive_nullable_optional PUndefined = Some Undefined"
| "z_positive_nullable_optional PNull = Some Null"
| "z_positive_nullable_optional (PNumber None) = None"
| "z_positive_nullable_optional (PNumber (Some x)) = (if 0 < x then Some (Value x) else None)"

text \<open>
  \<^verbatim>\<open>z.preprocess(..., z.number()).optional()\<close>: the outer \<open>optional\<close> answers an
  absent key before the callback runs; any other value goes through the callback and
  \<open>z.number()\<close>.
\<close>

definition z_balanceOriginal_update :: "lib \<Rightarrow> json \<Rightarrow> rat option option" where
  "z_balanceOriginal_update L v =
     (if v = JAbsent then Some None
      else case z_number (preBalanceUpdate L v) of None \<Rightarrow> None | Some x \<Rightarrow> Some (Some x))"

text \<open>
  \<^verbatim>\<open>z.string().nullable().optional().transform(val => val === "" ? null : val)\<close>
\<close>

fun z_notes :: "json \<Rightarrow> string field option" where
  "z_notes JAbsent = Some Undefined"
| "z_notes JNull = Some Null"
| "z_notes (JStr s) = (if s = [] then Some Null else Some (Value s))"
| "z_notes _ = None"

text \<open>\<^verbatim>\<open>z.boolean().optional()\<close>\<close>

fun z_boolean_optional :: "json \<Rightarrow> bool option option" where
  "z_boolean_optional JAbsent = Some None"
| "z_boolean_optional (JBool b) = Some (Some b)"
| "z_boolean_optional _ = None"

text \<open>\<^verbatim>\<open>z.string().min(lo)\<close> and \<^verbatim>\<open>z.string().min(lo).max(hi)\<close>\<close>

fun z_string_min :: "nat \<Rightarrow> json \<Rightarrow> string option" where
  "z_string_min lo (JStr s) = (if lo \<le> length s then Some s else None)"
| "z_string_min lo _ = None"

fun z_string_min_max :: "nat \<Rightarrow> nat \<Rightarrow> json \<Rightarrow> string option" where
  "z_string_min_max lo hi (JStr s) = (if lo \<le> length s \<and> length s \<le> hi then Some s else None)"
| "z_string_min_max lo hi _ = None"

text \<open>
  \<open>entryDate\<close>: a string goes through \<open>new Date(arg)\<close>, anything else a JSON body can
  hold becomes \<open>undefined\<close>; \<open>z.date()\<close> accepts a valid date only.
\<close>

fun z_entryDate :: "lib \<Rightarrow> json \<Rightarrow> date option" where
  "z_entryDate L (JStr s) = newDate L s"
| "z_entryDate L _ = None"

subsection \<open>The three schemas\<close>

record create_json =
  j_accountId :: json
  j_entryDate :: json
  j_balanceOriginal :: json
  j_currency :: json
  j_exchangeRateToBase :: json
  j_notes :: json
  j_locked :: json

record create_data =
  d_accountId :: string
  d_entryDate :: date
  d_balanceOriginal :: rat
  d_currency :: string
  d_exchangeRateToBase :: "rat field"
  d_notes :: "string field"
  d_locked :: bool

record update_json =
  uj_balanceOriginal :: json
  uj_exchangeRateToBase :: json
  uj_notes :: json
  uj_locked :: json

text \<open>
  The data handed to \<open>prisma.balanceEntry.update\<close>. \<open>balanceInBase\<close> is
  \<open>Undefined\<close> when the handler does not set the key, \<open>Null\<close> or a value when it does.
\<close>

record update_data =
  u_balanceOriginal :: "rat option"
  u_exchangeRateToBase :: "rat field"
  u_balanceInBase :: "rat field"
  u_notes :: "string field"
  u_locked :: "bool option"

definition createBalanceEntrySchema :: "lib \<Rightarrow> create_json body \<Rightarrow> create_data option" where
  "createBalanceEntrySchema L b =
     (case b of
        Object j \<Rightarrow>
          (case (z_string_min 1 (j_accountId j), z_entryDate L (j_entryDate j),
                 z_number (preBalanceCreate L (j_balanceOriginal j)),
                 z_string_min_max 2 10 (j_currency j),
                 z_positive_nullable_optional (preExchangeRate L (j_exchangeRateToBase j)),
                 z_notes (j_notes j), z_boolean_optional (j_locked j)) of
             (Some a, Some d, Some bo, Some c, Some r, Some n, Some l) \<Rightarrow>
               Some \<lparr>d_accountId = a, d_entryDate = d, d_balanceOriginal = bo, d_currency = c,
                     d_exchangeRateToBase = r, d_notes = n,
                     d_locked = (case l of None \<Rightarrow> False | Some v \<Rightarrow> v)\<rparr>
           | _ \<Rightarrow> None)
      | _ \<Rightarrow> None)"

definition updateBalanceEntrySchema :: "lib \<Rightarrow> update_json body \<Rightarrow> update_data option" where
  "updateBalanceEntrySchema L b =
     (case b of
        Object j \<Rightarrow>
          (case (z_balanceOriginal_update L (uj_balanceOriginal j),
                 z_positive_nullable_optional (preExchangeRate L (uj_exchangeRateToBase j)),
                 z_notes (uj_notes j), z_boolean_optional (uj_locked j)) of
             (Some bo, Some r, Some n, Some l) \<Rightarrow>
               Some \<lparr>u_balanceOriginal = bo, u_exchangeRateToBase = r,
                     u_balanceInBase = Undefined, u_notes = n, u_locked = l\<rparr>
           | _ \<Rightarrow> None)
      | _ \<Rightarrow> None)"

text \<open>
  \<open>updateLockedBalanceEntrySchema\<close> has the keys \<open>notes\<close> and \<open>locked\<close> only; a
  \<open>z.object\<close> that is not strict drops every other key of the body without an issue.
\<close>

definition updateLockedBalanceEntrySchema :: "update_json body \<Rightarrow> (string field \<times> bool option) option" where
  "updateLockedBalanceEntrySchema b =
     (case b of
        Object j \<Rightarrow>
          (case (z_notes (uj_notes j), z_boolean_optional (uj_locked j)) of
             (Some n, Some l) \<Rightarrow> Some (n, l)
           | _ \<Rightarrow> None)
      | _ \<Rightarrow> None)"

section \<open>The database of the balance-entry routes\<close>

datatype AssetType = ASSET | LIABILITY

text \<open>
  The columns of \<open>Account\<close> and \<open>BalanceEntry\<close> that the routes read or write.
  \<open>acc_assetCategory\<close> is \<open>account.assetCategory?.type\<close>: \<open>None\<close> for an
  account without a category.
\<close>

record account =
  acc_id :: string
  acc_userId :: string
  acc_currency :: string
  acc_assetCategory :: "AssetType option"

record balance_entry =
  be_id :: nat
  be_accountId :: string
  be_userId :: string
  be_entryDate :: date
  be_balanceOriginal :: rat
  be_currency :: string
  be_exchangeRateToBase :: "rat option"
  be_balanceInBase :: "rat option"
  be_locked :: bool
  be_notes :: "string option"

text \<open>
  Identifiers of balance entries are generated by the database; a counter stands for
  the generator.
\<close>

record db =
  accounts :: "account list"
  balanceEntries :: "balance_entry list"
  nextId :: nat

datatype prisma_error =
    P2002 "string list"
  | P2025
  | InvalidDate

text \<open>
  Modelled from the spec: the Prisma schema is not among the sources. The spec's data
  model states "at most one entry per (account, month)" and a 409 "for uniqueness
  conflicts (e.g., duplicate balance entry for the same account/month)"; the POST
  handler answers 409 to a P2002 whose target names \<open>accountId\<close> and \<open>entryDate\<close>.
  So \<open>BalanceEntry\<close> carries a unique constraint on (accountId, entryDate), and a
  create that violates it fails with that P2002 and writes nothing. An invalid
  \<open>Date\<close> is refused by the client before any write.
\<close>

definition balanceEntry_create :: "db \<Rightarrow> string \<Rightarrow> string \<Rightarrow> jsdate \<Rightarrow> rat \<Rightarrow> string \<Rightarrow> rat field
    \<Rightarrow> rat option \<Rightarrow> bool \<Rightarrow> string field \<Rightarrow> prisma_error + db" where
  "balanceEntry_create s accountId userId entryDate balanceOriginal currency exchangeRateToBase
       balanceInBase locked notes =
     (case entryDate of
        None \<Rightarrow> Inl InvalidDate
      | Some dt \<Rightarrow>
          if list_ex (\<lambda>e. be_accountId e = accountId \<and> be_entryDate e = dt) (balanceEntries s)
          then Inl (P2002 [''accountId'', ''entryDate''])
          else Inr (s\<lparr>balanceEntries := balanceEntries s @
                 [\<lparr>be_id = nextId s, be_accountId = accountId, be_userId = userId,
                   be_entryDate = dt, be_balanceOriginal = balanceOriginal,
                   be_currency = currency,
                   be_exchangeRateToBase = (case exchangeRateToBase of Value r \<Rightarrow> Some r | _ \<Rightarrow> None),
                   be_balanceInBase = balanceInBase, be_locked = locked,
                   be_notes = (case notes of Value n \<Rightarrow> Some n | _ \<Rightarrow> None)\<rparr>],
                 nextId := Suc (nextId s)\<rparr>))"

text \<open>
  \<open>prisma.balanceEntry.update\<close>: a key that is \<open>undefined\<close> is left as stored
  ("Prisma handles undefined fields as no change"), \<open>null\<close> clears a nullable column.
\<close>

definition applyUpdate :: "update_data \<Rightarrow> balance_entry \<Rightarrow> balance_entry" where
  "applyUpdate u e =
     e\<lparr>be_balanceOriginal := (case u_balanceOriginal u of None \<Rightarrow> be_balanceOriginal e | Some x \<Rightarrow> x),
       be_exchangeRateToBase :=
         (case u_exchangeRateToBase u of
            Undefined \<Rightarrow> be_exchangeRateToBase e | Null \<Rightarrow> None | Value r \<Rightarrow> Some r),
       be_balanceInBase :=
         (case u_balanceInBase u of
            Undefined \<Rightarrow> be_balanceInBase e | Null \<Rightarrow> None | Value b \<Rightarrow> Some b),
       be_notes :=
         (case u_notes u of Undefined \<Rightarrow> be_notes e | Null \<Rightarrow> None | Value n \<Rightarrow> Some n),
       be_locked := (case u_locked u of None \<Rightarrow> be_locked e | Some l \<Rightarrow> l)\<rparr>"

definition balanceEntry_update :: "db \<Rightarrow> nat \<Rightarrow> update_data \<Rightarrow> prisma_error + db" where
  "balanceEntry_update s i u =
     (if list_ex (\<lambda>e. be_id e = i) (balanceEntries s)
      then Inr (s\<lparr>balanceEntries :=
                  map (\<lambda>e. if be_id e = i then applyUpdate u e else e) (balanceEntries s)\<rparr>)
      else Inl P2025)"

definition balanceEntry_delete :: "db \<Rightarrow> nat \<Rightarrow> prisma_error + db" where
  "balanceEntry_delete s i =
     (if list_ex (\<lambda>e. be_id e = i) (balanceEntries s)
      then Inr (s\<lparr>balanceEntries := filter (\<lambda>e. be_id e \<noteq> i) (balanceEntries s)\<rparr>)
      else Inl P2025)"

section \<open>The handlers of /api/balance-entries\<close>

text \<open>
  A handler takes the session's user id (\<open>None\<close> without a session), the request and
  the database, and returns the HTTP status with the database it leaves.
\<close>

type_synonym session = "string option"

text \<open>
  The base-currency balance as POST computes it:
  \<^verbatim>\<open>let balanceInBase = data.balanceOriginal;
  if (data.exchangeRateToBase && data.exchangeRateToBase > 0)
    balanceInBase = data.balanceOriginal * data.exchangeRateToBase;\<close>
\<close>

definition createBalanceInBase :: "rat \<Rightarrow> rat field \<Rightarrow> rat" where
  "createBalanceInBase balanceOriginal exchangeRateToBase =
     (case exchangeRateToBase of
        Value r \<Rightarrow> if r \<noteq> 0 \<and> 0 < r then balanceOriginal * r else balanceOriginal
      | _ \<Rightarrow> balanceOriginal)"

text \<open>The \<open>catch\<close> block of POST.\<close>

fun createErrorStatus :: "prisma_error \<Rightarrow> nat" where
  "createErrorStatus (P2002 target) =
     (if ''accountId'' \<in> set target \<and> ''entryDate'' \<in> set target then 409 else 500)"
| "createErrorStatus _ = 500"

definition POST :: "lib \<Rightarrow> session \<Rightarrow> create_json body \<Rightarrow> db \<Rightarrow> nat \<times> db" where
  "POST L session json s =
     (case session of
        None \<Rightarrow> (401, s)
      | Some uid \<Rightarrow>
          if json = BadJson then (500, s)
          else
            (case createBalanceEntrySchema L json of
               None \<Rightarrow> (400, s)
             | Some data \<Rightarrow>
                 (case find (\<lambda>a. acc_id a = d_accountId data) (accounts s) of
                    None \<Rightarrow> (404, s)
                  | Some account \<Rightarrow>
                      if acc_userId account \<noteq> uid then (404, s)
                      else if toUpperCase L (acc_currency account) \<noteq> toUpperCase L (d_currency data)
                      then (400, s)
                      else
                        let normalizedEntryDate = normalizeToFirstOfMonthUTC (Some (d_entryDate data));
                            balanceInBase =
                              createBalanceInBase (d_balanceOriginal data) (d_exchangeRateToBase data)
                        in (case balanceEntry_create s (d_accountId data) uid normalizedEntryDate
                                   (d_balanceOriginal data) (toUpperCase L (d_currency data))
                                   (d_exchangeRateToBase data) (Some balanceInBase)
                                   (d_locked data) (d_notes data) of
                              Inl err \<Rightarrow> (createErrorStatus err, s)
                            | Inr s' \<Rightarrow> (201, s')))))"

text \<open>
  The unlocked branch of PUT, from the parsed data to what is written:
  \<^verbatim>\<open>let balanceInBase = existingEntry.balanceInBase;
  const newBalanceOriginal = dataToUpdate.balanceOriginal !== undefined
      ? dataToUpdate.balanceOriginal : existingEntry.balanceOriginal;
  const newExchangeRate = dataToUpdate.exchangeRateToBase !== undefined
      ? dataToUpdate.exchangeRateToBase : existingEntry.exchangeRateToBase;
  if (dataToUpdate.balanceOriginal !== undefined || dataToUpdate.exchangeRateToBase !== undefined) {
    if (newExchangeRate && newExchangeRate > 0) balanceInBase = newBalanceOriginal * newExchangeRate;
    else balanceInBase = newBalanceOriginal;
  }
  dataToUpdate.balanceInBase = balanceInBase;\<close>
\<close>

definition unlockedUpdate :: "balance_entry \<Rightarrow> update_data \<Rightarrow> update_data" where
  "unlockedUpdate existingEntry dataToUpdate =
     (let newBalanceOriginal =
            (case u_balanceOriginal dataToUpdate of
               Some x \<Rightarrow> x | None \<Rightarrow> be_balanceOriginal existingEntry);
          newExchangeRate =
            (case u_exchangeRateToBase dataToUpdate of
               Undefined \<Rightarrow> be_exchangeRateToBase existingEntry
             | Null \<Rightarrow> None
             | Value r \<Rightarrow> Some r);
          balanceInBase =
            (if u_balanceOriginal dataToUpdate \<noteq> None \<or> u_exchangeRateToBase dataToUpdate \<noteq> Undefined
             then (case newExchangeRate of
                     Some r \<Rightarrow> if 0 < r then Some (newBalanceOriginal * r) else Some newBalanceOriginal
                   | None \<Rightarrow> Some newBalanceOriginal)
             else be_balanceInBase existingEntry)
      in dataToUpdate\<lparr>u_balanceInBase :=
           (case balanceInBase of None \<Rightarrow> Null | Some b \<Rightarrow> Value b)\<rparr>)"

text \<open>The \<open>catch\<close> block of PUT and of DELETE.\<close>

fun updateErrorStatus :: "prisma_error \<Rightarrow> nat" where
  "updateErrorStatus P2025 = 404"
| "updateErrorStatus _ = 500"

definition PUT :: "lib \<Rightarrow> session \<Rightarrow> nat \<Rightarrow> update_json body \<Rightarrow> db \<Rightarrow> nat \<times> db" where
  "PUT L session i json s =
     (case session of
        None \<Rightarrow> (401, s)
      | Some uid \<Rightarrow>
          (case find (\<lambda>e. be_id e = i \<and> be_userId e = uid) (balanceEntries s) of
             None \<Rightarrow> (404, s)
           | Some existingEntry \<Rightarrow>
               if json = BadJson then (500, s)
               else
                 (case (if be_locked existingEntry
                        then (case updateLockedBalanceEntrySchema json of
                                None \<Rightarrow> Inl 403
                              | Some (n, l) \<Rightarrow>
                                  Inr \<lparr>u_balanceOriginal = None, u_exchangeRateToBase = Undefined,
                                       u_balanceInBase = Undefined, u_notes = n, u_locked = l\<rparr>)
                        else (case updateBalanceEntrySchema L json of
                                None \<Rightarrow> Inl 400
                              | Some data \<Rightarrow> Inr (unlockedUpdate existingEntry data))) of
                    Inl status \<Rightarrow> (status, s)
                  | Inr dataToUpdate \<Rightarrow>
                      (case balanceEntry_update s i dataToUpdate of
                         Inl err \<Rightarrow> (updateErrorStatus err, s)
                       | Inr s' \<Rightarrow> (200, s')))))"

definition DELETE :: "session \<Rightarrow> nat \<Rightarrow> db \<Rightarrow> nat \<times> db" where
  "DELETE session i s =
     (case session of
        None \<Rightarrow> (401, s)
      | Some uid \<Rightarrow>
          (case find (\<lambda>e. be_id e = i \<and> be_userId e = uid) (balanceEntries s) of
             None \<Rightarrow> (404, s)
           | Some entry \<Rightarrow>
               (case balanceEntry_delete s i of
                  Inl err \<Rightarrow> (updateErrorStatus err, s)
                | Inr s' \<Rightarrow> (200, s'))))"

text \<open>
  The states the routes can produce: from a database without balance entries, by any
  sequence of requests (one at a time). The account routes are not modelled one by one:
  between two balance-entry requests the accounts may change in any way, and the
  balance entries of an account that is gone are gone with it (\<open>onDelete: Cascade\<close>,
  as the comment in DELETE /api/accounts/[id] records).
\<close>

datatype request =
    Post session "create_json body"
  | Put session nat "update_json body"
  | Delete session nat

fun handle :: "lib \<Rightarrow> request \<Rightarrow> db \<Rightarrow> nat \<times> db" where
  "handle L (Post session json) s = POST L session json s"
| "handle L (Put session i json) s = PUT L session i json s"
| "handle L (Delete session i) s = DELETE session i s"

inductive reachable :: "lib \<Rightarrow> db \<Rightarrow> bool" for L :: lib where
  init: "balanceEntries s = [] \<Longrightarrow> reachable L s"
| step: "reachable L s \<Longrightarrow> handle L r s = (status, s') \<Longrightarrow> reachable L s'"
| accountsChange:
    "reachable L s \<Longrightarrow>
     reachable L (s\<lparr>accounts := as,
                    balanceEntries :=
                      filter (\<lambda>e. list_ex (\<lambda>a. acc_id a = be_accountId e) as) (balanceEntries s)\<rparr>)"

section \<open>The dashboard reads\<close>


subsection \<open>GET /api/dashboard/net-worth-trend\<close>







subsection \<open>GET /api/dashboard/net-worth-summary\<close>

record summary =
  sm_totalAssets :: rat
  sm_totalLiabilities :: rat
  sm_netWorth :: rat
  sm_lastUpdatedDate :: jsdate
  sm_accountsConsidered :: nat
  sm_accountsWithBalancesCounted :: nat

text \<open>The four variables the loop over the accounts changes.\<close>

record totals =
  totalAssets :: rat
  totalLiabilities :: rat
  lastUpdatedDate :: jsdate
  accountsUsedInCalculation :: nat

text \<open>
  \<^verbatim>\<open>balanceEntries: { orderBy: { entryDate: 'desc' }, take: 1 }\<close>
\<close>

definition latestBalanceEntries :: "db \<Rightarrow> account \<Rightarrow> balance_entry list" where
  "latestBalanceEntries s a =
     take 1 (rev (sort_key (\<lambda>e. timeKey (be_entryDate e))
                    (filter (\<lambda>e. be_accountId e = acc_id a) (balanceEntries s))))"

definition summaryStep :: "db \<Rightarrow> account \<Rightarrow> totals \<Rightarrow> totals" where
  "summaryStep s account t =
     (case latestBalanceEntries s account of
        [] \<Rightarrow> t
      | latestBalance # _ \<Rightarrow>
          (case be_balanceInBase latestBalance of
             None \<Rightarrow> t
           | Some balanceValue \<Rightarrow>
               t\<lparr>accountsUsedInCalculation := accountsUsedInCalculation t + 1,
                 totalAssets :=
                   (if acc_assetCategory account = Some ASSET
                    then totalAssets t + balanceValue else totalAssets t),
                 totalLiabilities :=
                   (if acc_assetCategory account = Some LIABILITY
                    then totalLiabilities t + balanceValue else totalLiabilities t),
                 lastUpdatedDate :=
                   (case lastUpdatedDate t of
                      None \<Rightarrow> Some (be_entryDate latestBalance)
                    | Some l \<Rightarrow>
                        if timeKey l < timeKey (be_entryDate latestBalance)
                        then Some (be_entryDate latestBalance) else Some l)\<rparr>))"

definition netWorthSummary :: "session \<Rightarrow> db \<Rightarrow> nat + summary" where
  "netWorthSummary session s =
     (case session of
        None \<Rightarrow> Inl 401
      | Some uid \<Rightarrow>
          let fetched = filter (\<lambda>a. acc_userId a = uid) (accounts s);
              t = fold (summaryStep s) fetched
                    \<lparr>totalAssets = 0, totalLiabilities = 0, lastUpdatedDate = None,
                     accountsUsedInCalculation = 0\<rparr>;
              netWorth = totalAssets t - totalLiabilities t
          in Inr \<lparr>sm_totalAssets = totalAssets t, sm_totalLiabilities = totalLiabilities t,
                  sm_netWorth = netWorth, sm_lastUpdatedDate = lastUpdatedDate t,
                  sm_accountsConsidered = length fetched,
                  sm_accountsWithBalancesCounted = accountsUsedInCalculation t\<rparr>)"

section \<open>Fixed deposits: calculateMaturityValue\<close>













section \<open>The handlers of /api/addresses\<close>

text \<open>
  Of an \<open>AddressHistory\<close> row the handlers read the id, the owner and \<open>isCurrent\<close>;
  the other columns (type, lines, city, dates, coordinates) are only validated and
  stored, and \<open>ad_rest\<close> stands for them. In a request, \<open>aj_rest\<close> is what the schema
  makes of the other keys: \<open>None\<close> when one of them has an issue, for a create the
  columns to store, for an update the change the given keys make to them.
\<close>

record 'r address =
  ad_id :: nat
  ad_userId :: string
  ad_isCurrent :: bool
  ad_rest :: 'r

record 'r address_db =
  addresses :: "'r address list"
  ad_nextId :: nat

record 'v address_json =
  aj_isCurrent :: json
  aj_rest :: "'v option"

text \<open>\<open>isCurrent: z.boolean().optional().default(false)\<close> in the create schema.\<close>

definition createAddressSchema :: "'r address_json body \<Rightarrow> (bool \<times> 'r) option" where
  "createAddressSchema b =
     (case b of
        Object j \<Rightarrow>
          (case (z_boolean_optional (aj_isCurrent j), aj_rest j) of
             (Some c, Some r) \<Rightarrow> Some (case c of None \<Rightarrow> False | Some v \<Rightarrow> v, r)
           | _ \<Rightarrow> None)
      | _ \<Rightarrow> None)"

text \<open>\<open>isCurrent: z.boolean().optional()\<close> in the update schema.\<close>

definition updateAddressSchema :: "('r \<Rightarrow> 'r) address_json body \<Rightarrow> (bool option \<times> ('r \<Rightarrow> 'r)) option" where
  "updateAddressSchema b =
     (case b of
        Object j \<Rightarrow>
          (case (z_boolean_optional (aj_isCurrent j), aj_rest j) of
             (Some c, Some f) \<Rightarrow> Some (c, f)
           | _ \<Rightarrow> None)
      | _ \<Rightarrow> None)"

text \<open>
  \<^verbatim>\<open>prisma.addressHistory.updateMany({ where: { userId, isCurrent: true [, id: { not: id }] },
       data: { isCurrent: false } })\<close>
  The optional argument is the id the PUT handler leaves out of the demotion.
\<close>

definition demoteCurrent :: "string \<Rightarrow> nat option \<Rightarrow> 'r address_db \<Rightarrow> 'r address_db" where
  "demoteCurrent uid except s =
     s\<lparr>addresses :=
         map (\<lambda>a. if ad_userId a = uid \<and> ad_isCurrent a \<and> Some (ad_id a) \<noteq> except
                   then a\<lparr>ad_isCurrent := False\<rparr> else a)
             (addresses s)\<rparr>"

definition address_POST :: "session \<Rightarrow> 'r address_json body \<Rightarrow> 'r address_db \<Rightarrow> nat \<times> 'r address_db" where
  "address_POST session json s =
     (case session of
        None \<Rightarrow> (401, s)
      | Some uid \<Rightarrow>
          if json = BadJson then (500, s)
          else
            (case createAddressSchema json of
               None \<Rightarrow> (400, s)
             | Some (isCurrent, rest) \<Rightarrow>
                 let s1 = (if isCurrent then demoteCurrent uid None s else s)
                 in (201, s1\<lparr>addresses := addresses s1 @
                              [\<lparr>ad_id = ad_nextId s1, ad_userId = uid, ad_isCurrent = isCurrent,
                                ad_rest = rest\<rparr>],
                            ad_nextId := Suc (ad_nextId s1)\<rparr>)))"

text \<open>
  \<^verbatim>\<open>prisma.addressHistory.update({ where: { id, userId }, data })\<close>: P2025 when no
  row matches, which the handler answers with a 404.
\<close>

definition address_update ::
    "nat \<Rightarrow> string \<Rightarrow> bool option \<Rightarrow> ('r \<Rightarrow> 'r) \<Rightarrow> 'r address_db \<Rightarrow> prisma_error + 'r address_db" where
  "address_update i uid isCurrent f s =
     (if list_ex (\<lambda>a. ad_id a = i \<and> ad_userId a = uid) (addresses s)
      then Inr (s\<lparr>addresses :=
                  map (\<lambda>a. if ad_id a = i \<and> ad_userId a = uid
                            then a\<lparr>ad_isCurrent :=
                                     (case isCurrent of None \<Rightarrow> ad_isCurrent a | Some c \<Rightarrow> c),
                                   ad_rest := f (ad_rest a)\<rparr>
                            else a)
                      (addresses s)\<rparr>)
      else Inl P2025)"

definition address_PUT ::
    "session \<Rightarrow> nat \<Rightarrow> ('r \<Rightarrow> 'r) address_json body \<Rightarrow> 'r address_db \<Rightarrow> nat \<times> 'r address_db" where
  "address_PUT session i json s =
     (case session of
        None \<Rightarrow> (401, s)
      | Some uid \<Rightarrow>
          if json = BadJson then (500, s)
          else
            (case updateAddressSchema json of
               None \<Rightarrow> (400, s)
             | Some (isCurrent, f) \<Rightarrow>
                 (case (if isCurrent = Some True
                        then (case find (\<lambda>a. ad_id a = i \<and> ad_userId a = uid) (addresses s) of
                                None \<Rightarrow> Inl 404
                              | Some existingAddress \<Rightarrow>
                                  if \<not> ad_isCurrent existingAddress
                                  then Inr (demoteCurrent uid (Some i) s) else Inr s)
                        else Inr s) of
                    Inl status \<Rightarrow> (status, s)
                  | Inr s1 \<Rightarrow>
                      (case address_update i uid isCurrent f s1 of
                         Inl err \<Rightarrow> (updateErrorStatus err, s1)
                       | Inr s2 \<Rightarrow> (200, s2)))))"

text \<open>\<open>deleteMany({ where: { id, userId } })\<close>, 404 when the count is 0.\<close>

definition address_DELETE :: "session \<Rightarrow> nat \<Rightarrow> 'r address_db \<Rightarrow> nat \<times> 'r address_db" where
  "address_DELETE session i s =
     (case session of
        None \<Rightarrow> (401, s)
      | Some uid \<Rightarrow>
          if list_ex (\<lambda>a. ad_id a = i \<and> ad_userId a = uid) (addresses s)
          then (200, s\<lparr>addresses :=
                        filter (\<lambda>a. \<not> (ad_id a = i \<and> ad_userId a = uid)) (addresses s)\<rparr>)
          else (404, s))"

datatype 'r address_request =
    AddressPost session "'r address_json body"
  | AddressPut session nat "('r \<Rightarrow> 'r) address_json body"
  | AddressDelete session nat

fun address_handle :: "'r address_request \<Rightarrow> 'r address_db \<Rightarrow> nat \<times> 'r address_db" where
  "address_handle (AddressPost session json) s = address_POST session json s"
| "address_handle (AddressPut session i json) s = address_PUT session i json s"
| "address_handle (AddressDelete session i) s = address_DELETE session i s"

text \<open>
  The address tables the routes can produce from an empty one, one request at a time
  (each handler runs to its end before the next starts).
\<close>

inductive address_reachable :: "'r address_db \<Rightarrow> bool" where
  address_init: "addresses s = [] \<Longrightarrow> address_reachable s"
| address_step:
    "address_reachable s \<Longrightarrow> address_handle r s = (status, s') \<Longrightarrow> address_reachable s'"

text \<open>The addresses of a user that are marked current.\<close>

definition currentAddresses :: "string \<Rightarrow> 'r address_db \<Rightarrow> 'r address list" where
  "currentAddresses uid s = filter (\<lambda>a. ad_userId a = uid \<and> ad_isCurrent a) (addresses s)"

section \<open>Predicates and totals used in the statements\<close>



text \<open>
  A date that the normalisation leaves as it is: 00:00:00.000 UTC on the first day of a
  month, in a year that \<open>Date.UTC\<close> does not reinterpret.
\<close>

definition storedDate :: "date \<Rightarrow> bool" where
  "storedDate d \<longleftrightarrow> normalizeToFirstOfMonthUTC (Some d) = Some d"

text \<open>
  Every stored entry date is such a date, and no two entries share account and date.
\<close>

definition datesOK :: "db \<Rightarrow> bool" where
  "datesOK s \<longleftrightarrow> (\<forall>e\<in>set (balanceEntries s). storedDate (be_entryDate e)) \<and>
     distinct (map (\<lambda>e. (be_accountId e, be_entryDate e)) (balanceEntries s))"






text \<open>
  The two row-wise changes the address handlers make: \<open>demoteCurrent\<close> maps
  \<open>demoteRow\<close> over the table, \<open>address_update\<close> maps \<open>updateRow\<close>.
\<close>

definition demoteRow :: "string \<Rightarrow> nat option \<Rightarrow> 'r address \<Rightarrow> 'r address" where
  "demoteRow uid except a =
     (if ad_userId a = uid \<and> ad_isCurrent a \<and> Some (ad_id a) \<noteq> except
      then a\<lparr>ad_isCurrent := False\<rparr> else a)"

definition updateRow :: "nat \<Rightarrow> string \<Rightarrow> bool option \<Rightarrow> ('r \<Rightarrow> 'r) \<Rightarrow> 'r address \<Rightarrow> 'r address" where
  "updateRow i uid isCurrent f a =
     (if ad_id a = i \<and> ad_userId a = uid
      then a\<lparr>ad_isCurrent := (case isCurrent of None \<Rightarrow> ad_isCurrent a | Some c \<Rightarrow> c),
             ad_rest := f (ad_rest a)\<rparr>
      else a)"

text \<open>
  Address identifiers are unique and below the counter, and no user has more than one
  current address.
\<close>

definition addressesOK :: "'r address_db \<Rightarrow> bool" where
  "addressesOK s \<longleftrightarrow>
     distinct (map ad_id (addresses s)) \<and> (\<forall>a\<in>set (addresses s). ad_id a < ad_nextId s) \<and>
     (\<forall>uid. length (currentAddresses uid s) \<le> 1)"

section \<open>Sample data for the closed examples\<close>

text \<open>
  The values of the three library functions on the strings the examples use; the table
  says nothing about other strings.
\<close>

definition sampleLib :: lib where
  "sampleLib =
     \<lparr>parseFloat = (\<lambda>s. if s = ''2'' then Some 2 else None),
      newDate = (\<lambda>s.
        if s = ''2024-01-15T10:30:00.000Z''
        then Some \<lparr>utcFullYear = 2024, utcMonth = 0, utcDate = 15, utcMs = 37800000\<rparr>
        else if s = ''2024-01-31T23:59:59.999Z''
        then Some \<lparr>utcFullYear = 2024, utcMonth = 0, utcDate = 31, utcMs = 86399999\<rparr>
        else if s = ''2024-02-01T00:00:00.000Z''
        then Some \<lparr>utcFullYear = 2024, utcMonth = 1, utcDate = 1, utcMs = 0\<rparr>
        else if s = ''0050-03-15T00:00:00.000Z''
        then Some \<lparr>utcFullYear = 50, utcMonth = 2, utcDate = 15, utcMs = 0\<rparr>
        else None),
      toUpperCase = (\<lambda>s. if s = ''usd'' then ''USD'' else s)\<rparr>"

text \<open>Three accounts of user u1: an asset, a liability, and one without a category.\<close>

definition sampleAccounts :: "account list" where
  "sampleAccounts =
     [\<lparr>acc_id = ''savings'', acc_userId = ''u1'', acc_currency = ''USD'', acc_assetCategory = Some ASSET\<rparr>,
      \<lparr>acc_id = ''loan'', acc_userId = ''u1'', acc_currency = ''USD'', acc_assetCategory = Some LIABILITY\<rparr>,
      \<lparr>acc_id = ''wallet'', acc_userId = ''u1'', acc_currency = ''USD'', acc_assetCategory = None\<rparr>]"

text \<open>A create body, a stored entry of 2024 and an update body, by their varying fields.\<close>

definition sampleCreate :: "string \<Rightarrow> string \<Rightarrow> rat \<Rightarrow> json \<Rightarrow> create_json body" where
  "sampleCreate accountId entryDate balanceOriginal exchangeRateToBase =
     Object \<lparr>j_accountId = JStr accountId, j_entryDate = JStr entryDate,
             j_balanceOriginal = JNum balanceOriginal, j_currency = JStr ''usd'',
             j_exchangeRateToBase = exchangeRateToBase, j_notes = JAbsent, j_locked = JAbsent\<rparr>"

definition sampleEntry :: "nat \<Rightarrow> string \<Rightarrow> nat \<Rightarrow> rat \<Rightarrow> rat option \<Rightarrow> rat \<Rightarrow> bool \<Rightarrow> balance_entry" where
  "sampleEntry i accountId month balanceOriginal exchangeRateToBase balanceInBase locked =
     \<lparr>be_id = i, be_accountId = accountId, be_userId = ''u1'',
      be_entryDate = \<lparr>utcFullYear = 2024, utcMonth = month, utcDate = 1, utcMs = 0\<rparr>,
      be_balanceOriginal = balanceOriginal, be_currency = ''USD'',
      be_exchangeRateToBase = exchangeRateToBase, be_balanceInBase = Some balanceInBase,
      be_locked = locked, be_notes = None\<rparr>"

definition sampleUpdate :: "json \<Rightarrow> json \<Rightarrow> json \<Rightarrow> json \<Rightarrow> update_json body" where
  "sampleUpdate balanceOriginal exchangeRateToBase notes locked =
     Object \<lparr>uj_balanceOriginal = balanceOriginal, uj_exchangeRateToBase = exchangeRateToBase,
             uj_notes = notes, uj_locked = locked\<rparr>"

definition sampleDb :: "balance_entry list \<Rightarrow> db" where
  "sampleDb es = \<lparr>accounts = sampleAccounts, balanceEntries = es, nextId = length es\<rparr>"

text \<open>
  Addresses of user u1 with nothing in the other columns, and bodies that set
  \<open>isCurrent\<close> to true.
\<close>

definition sampleAddress :: "nat \<Rightarrow> bool \<Rightarrow> unit address" where
  "sampleAddress i isCurrent = \<lparr>ad_id = i, ad_userId = ''u1'', ad_isCurrent = isCurrent, ad_rest = ()\<rparr>"

definition sampleAddressDb :: "unit address list \<Rightarrow> unit address_db" where
  "sampleAddressDb as = \<lparr>addresses = as, ad_nextId = length as\<rparr>"

definition sampleAddressCreate :: "unit address_json body" where
  "sampleAddressCreate = Object \<lparr>aj_isCurrent = JBool True, aj_rest = Some ()\<rparr>"

definition sampleAddressUpdate :: "(unit \<Rightarrow> unit) address_json body" where
  "sampleAddressUpdate = Object \<lparr>aj_isCurrent = JBool True, aj_rest = Some (\<lambda>r. r)\<rparr>"

section \<open>Proofs\<close>

lemmas sample_defs = sampleLib_def sampleAccounts_def sampleCreate_def sampleEntry_def sampleUpdate_def
  sampleDb_def

lemmas post_defs = POST_def createBalanceEntrySchema_def balanceEntry_create_def createBalanceInBase_def
  normalizeToFirstOfMonthUTC_def Date_UTC_def MakeFullYear_def inTimeRange_def Let_def

lemmas put_defs = PUT_def updateBalanceEntrySchema_def updateLockedBalanceEntrySchema_def
  z_balanceOriginal_update_def unlockedUpdate_def balanceEntry_update_def applyUpdate_def Let_def

subsection \<open>What a balance-entry request does to the database\<close>

lemma POST_cases:
  assumes "POST L ss j s = (st, s')"
  shows "(s' = s \<and> st \<noteq> 201) \<or>
     (\<exists>data dt uid a. ss = Some uid \<and> createBalanceEntrySchema L j = Some data \<and> st = 201 \<and>
        find (\<lambda>a. acc_id a = d_accountId data) (accounts s) = Some a \<and> acc_userId a = uid \<and>
        toUpperCase L (acc_currency a) = toUpperCase L (d_currency data) \<and>
        normalizeToFirstOfMonthUTC (Some (d_entryDate data)) = Some dt \<and>
        \<not> list_ex (\<lambda>x. be_accountId x = d_accountId data \<and> be_entryDate x = dt) (balanceEntries s) \<and>
        s' = s\<lparr>balanceEntries := balanceEntries s @
           [\<lparr>be_id = nextId s, be_accountId = d_accountId data, be_userId = uid,
             be_entryDate = dt, be_balanceOriginal = d_balanceOriginal data,
             be_currency = toUpperCase L (d_currency data),
             be_exchangeRateToBase = (case d_exchangeRateToBase data of Value r \<Rightarrow> Some r | _ \<Rightarrow> None),
             be_balanceInBase = Some (createBalanceInBase (d_balanceOriginal data) (d_exchangeRateToBase data)),
             be_locked = d_locked data,
             be_notes = (case d_notes data of Value n \<Rightarrow> Some n | _ \<Rightarrow> None)\<rparr>],
           nextId := Suc (nextId s)\<rparr>)"
proof (cases ss)
  case None
  with assms show ?thesis by (simp add: POST_def)
next
  case (Some uid)
  show ?thesis
  proof (cases "st = 201")
    case False
    with assms Some show ?thesis
      by (auto simp: POST_def balanceEntry_create_def Let_def split: option.splits if_splits sum.splits)
  next
    case True
    with assms Some show ?thesis
      by (simp add: POST_def balanceEntry_create_def Let_def split: option.splits if_splits sum.splits prisma_error.splits)
  qed
qed





lemma find_SomeD: "find P xs = Some x \<Longrightarrow> x \<in> set xs \<and> P x"
  by (induction xs) (auto split: if_splits)

lemma be_id_applyUpdate [simp]: "be_id (applyUpdate u e) = be_id e"
  by (simp add: applyUpdate_def)



lemma PUT_cases:
  assumes "PUT L ss i j s = (st, s')"
  shows "(s' = s \<and> st \<noteq> 200) \<or>
     (\<exists>uid existingEntry u. ss = Some uid \<and> st = 200 \<and>
        find (\<lambda>e. be_id e = i \<and> be_userId e = uid) (balanceEntries s) = Some existingEntry \<and>
        (if be_locked existingEntry
         then (\<exists>n l. updateLockedBalanceEntrySchema j = Some (n, l) \<and>
                 u = \<lparr>u_balanceOriginal = None, u_exchangeRateToBase = Undefined,
                       u_balanceInBase = Undefined, u_notes = n, u_locked = l\<rparr>)
         else (\<exists>data. updateBalanceEntrySchema L j = Some data \<and> u = unlockedUpdate existingEntry data)) \<and>
        s' = s\<lparr>balanceEntries := map (\<lambda>e. if be_id e = i then applyUpdate u e else e) (balanceEntries s)\<rparr>)"
proof (cases ss)
  case None
  with assms show ?thesis by (simp add: PUT_def)
next
  case (Some uid)
  show ?thesis
  proof (cases "st = 200")
    case False
    with assms Some show ?thesis
      by (auto simp: PUT_def balanceEntry_update_def split: option.splits if_splits sum.splits prod.splits)
  next
    case True
    with assms Some show ?thesis
      by (auto simp: PUT_def balanceEntry_update_def split: option.splits if_splits sum.splits prod.splits prisma_error.splits)
  qed
qed








lemma storedDate_iff:
  "storedDate d \<longleftrightarrow> Date_UTC (utcFullYear d) (utcMonth d) = Some d"
  by (simp add: storedDate_def normalizeToFirstOfMonthUTC_def)

lemma storedDate_fields:
  assumes "storedDate d"
  shows "d = \<lparr>utcFullYear = utcFullYear d, utcMonth = utcMonth d, utcDate = 1, utcMs = 0\<rparr>"
    and "MakeFullYear (utcFullYear d) = utcFullYear d"
    and "inTimeRange (utcFullYear d) (utcMonth d)"
  using assms
  by (cases d; simp add: storedDate_iff Date_UTC_def Let_def split: if_splits)+

lemma MakeFullYear_idem: "MakeFullYear (MakeFullYear y) = MakeFullYear y"
  by (simp add: MakeFullYear_def)

lemma normalize_storedDate: "normalizeToFirstOfMonthUTC dt = Some d \<Longrightarrow> storedDate d"
  by (auto simp: storedDate_iff normalizeToFirstOfMonthUTC_def Date_UTC_def Let_def MakeFullYear_idem
      split: option.splits if_splits)

lemma key_applyUpdate [simp]:
  "be_accountId (applyUpdate u e) = be_accountId e" "be_entryDate (applyUpdate u e) = be_entryDate e"
  "be_userId (applyUpdate u e) = be_userId e"
  by (simp_all add: applyUpdate_def)

lemma map_key_update:
  "map (\<lambda>e. (be_accountId e, be_entryDate e)) (map (\<lambda>e. if be_id e = i then applyUpdate u e else e) xs)
     = map (\<lambda>e. (be_accountId e, be_entryDate e)) xs"
  by (induction xs) auto

lemma POST_datesOK: "datesOK s \<Longrightarrow> POST L ss j s = (st, s') \<Longrightarrow> datesOK s'"
  by (drule POST_cases) (force simp: datesOK_def list_ex_iff dest: normalize_storedDate)

lemma PUT_datesOK: "datesOK s \<Longrightarrow> PUT L ss i j s = (st, s') \<Longrightarrow> datesOK s'"
  by (drule PUT_cases) (auto simp: datesOK_def map_key_update simp del: map_map)

lemma DELETE_datesOK: "datesOK s \<Longrightarrow> DELETE ss i s = (st, s') \<Longrightarrow> datesOK s'"
  by (auto simp: datesOK_def DELETE_def balanceEntry_delete_def distinct_map_filter split: option.splits if_splits sum.splits)

lemma reachable_datesOK: "reachable L s \<Longrightarrow> datesOK s"
proof (induction rule: reachable.induct)
  case (init s)
  then show ?case by (simp add: datesOK_def)
next
  case (step s r status s')
  then show ?case by (cases r) (auto dest: POST_datesOK PUT_datesOK DELETE_datesOK)
next
  case (accountsChange s as)
  then show ?case by (simp add: datesOK_def distinct_map_filter)
qed

lemma length_filter_le_1:
  "distinct (map f xs) \<Longrightarrow> (\<And>x. x \<in> set xs \<Longrightarrow> P x \<Longrightarrow> f x = k) \<Longrightarrow> length (filter P xs) \<le> 1"
proof (induction xs)
  case Nil
  then show ?case by simp
next
  case (Cons x xs)
  show ?case
  proof (cases "P x")
    case True
    have "filter P xs = []"
    proof (rule ccontr)
      assume "filter P xs \<noteq> []"
      then obtain y where "y \<in> set xs" "P y" by (auto simp: filter_empty_conv)
      with Cons.prems True have "f y = f x" by auto
      with \<open>y \<in> set xs\<close> Cons.prems(1) show False by (force simp: image_iff)
    qed
    with True show ?thesis by simp
  next
    case False
    with Cons show ?thesis by auto
  qed
qed

lemma at_most_one_per_month:
  assumes "reachable L s"
  shows "length (filter (\<lambda>e. be_accountId e = a \<and> utcFullYear (be_entryDate e) = y \<and> utcMonth (be_entryDate e) = m)
            (balanceEntries s)) \<le> 1"
proof (rule length_filter_le_1[where f = "\<lambda>e. (be_accountId e, be_entryDate e)"
      and k = "(a, \<lparr>utcFullYear = y, utcMonth = m, utcDate = 1, utcMs = 0\<rparr>)"])
  show "distinct (map (\<lambda>e. (be_accountId e, be_entryDate e)) (balanceEntries s))"
    using reachable_datesOK[OF assms] by (simp add: datesOK_def)
next
  fix x assume x: "x \<in> set (balanceEntries s)"
    "be_accountId x = a \<and> utcFullYear (be_entryDate x) = y \<and> utcMonth (be_entryDate x) = m"
  then have "storedDate (be_entryDate x)" using reachable_datesOK[OF assms] by (simp add: datesOK_def)
  from storedDate_fields(1)[OF this] x(2)
  show "(be_accountId x, be_entryDate x) = (a, \<lparr>utcFullYear = y, utcMonth = m, utcDate = 1, utcMs = 0\<rparr>)"
    by simp
qed

lemma POST_same_month:
  assumes r: "reachable L s"
    and p: "createBalanceEntrySchema L j = Some data"
    and e: "e \<in> set (balanceEntries s)" "be_accountId e = d_accountId data"
      "utcFullYear (be_entryDate e) = utcFullYear (d_entryDate data)"
      "utcMonth (be_entryDate e) = utcMonth (d_entryDate data)"
  shows "snd (POST L ss j s) = s"
    and "ss = Some uid \<Longrightarrow> find (\<lambda>a. acc_id a = d_accountId data) (accounts s) = Some a \<Longrightarrow>
         acc_userId a = uid \<Longrightarrow> toUpperCase L (acc_currency a) = toUpperCase L (d_currency data) \<Longrightarrow>
         fst (POST L ss j s) = 409"
proof -
  have sd: "storedDate (be_entryDate e)" using reachable_datesOK[OF r] e(1) by (simp add: datesOK_def)
  have n: "normalizeToFirstOfMonthUTC (Some (d_entryDate data)) = Some (be_entryDate e)"
    using sd e(3,4) by (simp add: storedDate_iff normalizeToFirstOfMonthUTC_def)
  have ex: "list_ex (\<lambda>x. be_accountId x = d_accountId data \<and> be_entryDate x = be_entryDate e) (balanceEntries s)"
    using e(1,2) by (auto simp: list_ex_iff)
  have c: "balanceEntry_create s (d_accountId data) u (Some (be_entryDate e)) bo cur r' bib l nts
       = Inl (P2002 [''accountId'', ''entryDate''])" for u bo cur r' bib l nts
    using ex by (simp add: balanceEntry_create_def)
  have nb: "j \<noteq> BadJson" using p by (auto simp: createBalanceEntrySchema_def)
  show "snd (POST L ss j s) = s"
    using p n c nb by (simp add: POST_def Let_def split: option.splits)
  show "ss = Some uid \<Longrightarrow> find (\<lambda>a. acc_id a = d_accountId data) (accounts s) = Some a \<Longrightarrow>
         acc_userId a = uid \<Longrightarrow> toUpperCase L (acc_currency a) = toUpperCase L (d_currency data) \<Longrightarrow>
         fst (POST L ss j s) = 409"
    using p n c nb by (simp add: POST_def Let_def)
qed

subsection \<open>The monthly aggregation\<close>






lemma storedDate_firstOfMonth: "storedDate d \<Longrightarrow> firstOfMonth d = d"
  using storedDate_fields(1)[of d] by (simp add: firstOfMonth_def)











subsection \<open>Current addresses\<close>

lemma length_filter_map_le:
  "(\<And>x. x \<in> set xs \<Longrightarrow> P (g x) \<Longrightarrow> P x) \<Longrightarrow> length (filter P (map g xs)) \<le> length (filter P xs)"
  by (induction xs) (auto simp: le_SucI)

lemma length_filter_filter_le: "length (filter P (filter Q xs)) \<le> length (filter P xs)"
  by (induction xs) (auto simp: le_SucI)

lemma same_ad_id:
  "distinct (map ad_id xs) \<Longrightarrow> x \<in> set xs \<Longrightarrow> y \<in> set xs \<Longrightarrow> ad_id x = ad_id y \<Longrightarrow> x = y"
  by (auto simp: distinct_map dest: inj_onD)

lemma length_le_1_same:
  "length (filter P xs) \<le> 1 \<Longrightarrow> x \<in> set xs \<Longrightarrow> y \<in> set xs \<Longrightarrow> P x \<Longrightarrow> P y \<Longrightarrow> x = y"
proof (induction xs)
  case Nil
  then show ?case by simp
next
  case (Cons z zs)
  show ?case
  proof (cases "P z")
    case True
    with Cons.prems(1) have "filter P zs = []" by simp
    then have "\<And>w. w \<in> set zs \<Longrightarrow> \<not> P w" by (auto simp: filter_empty_conv)
    with Cons.prems show ?thesis by auto
  next
    case False
    with Cons show ?thesis by auto
  qed
qed

lemma demoteCurrent_rows: "demoteCurrent uid except s = s\<lparr>addresses := map (demoteRow uid except) (addresses s)\<rparr>"
  by (simp add: demoteCurrent_def demoteRow_def)

lemma demoteRow_simps [simp]:
  "ad_id (demoteRow uid except a) = ad_id a" "ad_userId (demoteRow uid except a) = ad_userId a"
  by (simp_all add: demoteRow_def)

lemma updateRow_simps [simp]:
  "ad_id (updateRow i uid c f a) = ad_id a" "ad_userId (updateRow i uid c f a) = ad_userId a"
  by (simp_all add: updateRow_def)

lemma address_update_rows:
  "address_update i uid c f s =
     (if list_ex (\<lambda>a. ad_id a = i \<and> ad_userId a = uid) (addresses s)
      then Inr (s\<lparr>addresses := map (updateRow i uid c f) (addresses s)\<rparr>) else Inl P2025)"
  by (simp add: address_update_def updateRow_def)

lemma address_POST_cases:
  assumes "address_POST ss json s = (st, s')"
  shows "(s' = s \<and> st \<noteq> 201) \<or>
     (\<exists>uid isCurrent rest. ss = Some uid \<and> st = 201 \<and> createAddressSchema json = Some (isCurrent, rest) \<and>
        s' = \<lparr>addresses = map (if isCurrent then demoteRow uid None else (\<lambda>a. a)) (addresses s) @
                 [\<lparr>ad_id = ad_nextId s, ad_userId = uid, ad_isCurrent = isCurrent, ad_rest = rest\<rparr>],
              ad_nextId = Suc (ad_nextId s)\<rparr>)"
  using assms
  by (cases s) (auto simp: address_POST_def demoteCurrent_rows Let_def split: option.splits if_splits)

lemma address_PUT_cases:
  assumes "address_PUT ss i json s = (st, s')"
  shows "(s' = s \<and> st \<noteq> 200) \<or>
     (\<exists>uid isCurrent f a. ss = Some uid \<and> st = 200 \<and> updateAddressSchema json = Some (isCurrent, f) \<and>
        a \<in> set (addresses s) \<and> ad_id a = i \<and> ad_userId a = uid \<and>
        s' = s\<lparr>addresses := map (updateRow i uid isCurrent f)
                 (map (if isCurrent = Some True \<and> \<not> ad_isCurrent a then demoteRow uid (Some i) else (\<lambda>a. a))
                    (addresses s))\<rparr> \<and>
        (isCurrent = Some True \<longrightarrow> find (\<lambda>a. ad_id a = i \<and> ad_userId a = uid) (addresses s) = Some a))"
proof (cases ss)
  case None
  with assms show ?thesis by (simp add: address_PUT_def)
next
  case (Some uid)
  show ?thesis
  proof (cases "json = BadJson \<or> updateAddressSchema json = None")
    case True
    with assms Some show ?thesis by (auto simp: address_PUT_def split: if_splits)
  next
    case False
    then obtain isCurrent f where p: "updateAddressSchema json = Some (isCurrent, f)" and nb: "json \<noteq> BadJson"
      by auto
    show ?thesis
    proof (cases "isCurrent = Some True")
      case True
      show ?thesis
      proof (cases "find (\<lambda>a. ad_id a = i \<and> ad_userId a = uid) (addresses s)")
        case None
        with assms Some p nb True show ?thesis by (simp add: address_PUT_def)
      next
        case (Some a)
        note fa = find_SomeD[OF Some]
        have ex: "list_ex (\<lambda>a. ad_id a = i \<and> ad_userId a = uid) (map (demoteRow uid (Some i)) (addresses s))"
          "list_ex (\<lambda>a. ad_id a = i \<and> ad_userId a = uid) (addresses s)"
          using fa by (auto simp: list_ex_iff)
        from assms \<open>ss = Some uid\<close> p nb True Some ex fa show ?thesis
          by (cases "ad_isCurrent a")
            (auto simp: address_PUT_def address_update_rows demoteCurrent_rows)
      qed
    next
      case False
      show ?thesis
      proof (cases "list_ex (\<lambda>a. ad_id a = i \<and> ad_userId a = uid) (addresses s)")
        case True
        then obtain a where "a \<in> set (addresses s)" "ad_id a = i" "ad_userId a = uid"
          by (auto simp: list_ex_iff)
        with assms Some p nb False True show ?thesis
          by (auto simp: address_PUT_def address_update_rows)
      next
        case nex: False
        with assms Some p nb False show ?thesis
          by (auto simp: address_PUT_def address_update_rows)
      qed
    qed
  qed
qed

lemma filter_key_single:
  "distinct (map f xs) \<Longrightarrow> a \<in> set xs \<Longrightarrow> filter (\<lambda>x. f x = f a) xs = [a]"
proof (induction xs)
  case Nil
  then show ?case by simp
next
  case (Cons x xs)
  show ?case
  proof (cases "x = a")
    case True
    with Cons.prems have "filter (\<lambda>x. f x = f a) xs = []"
      by (force simp: filter_empty_conv image_iff)
    with True show ?thesis by simp
  next
    case False
    with Cons.prems have "a \<in> set xs" "f x \<noteq> f a" by (auto simp: image_iff)
    with Cons show ?thesis by simp
  qed
qed

lemma filter_map_single:
  assumes "distinct (map f xs)" "a \<in> set xs"
    and "\<And>x. x \<in> set xs \<Longrightarrow> P (g x) \<longleftrightarrow> f x = f a"
  shows "filter P (map g xs) = [g a]"
proof -
  have "filter P (map g xs) = map g (filter (\<lambda>x. P (g x)) xs)"
    by (simp add: filter_map comp_def)
  also have "filter (\<lambda>x. P (g x)) xs = filter (\<lambda>x. f x = f a) xs"
    using assms(3) by (auto intro: filter_cong)
  finally show ?thesis using filter_key_single[OF assms(1,2)] by simp
qed

lemma address_POST_current:
  assumes "address_POST (Some uid) json s = (201, s')" "createAddressSchema json = Some (True, rest)"
  shows "map ad_id (currentAddresses uid s') = [ad_nextId s]"
proof -
  have pt: "ad_userId a = uid \<longrightarrow> \<not> ad_isCurrent (demoteRow uid None a)" for a :: "'a address"
    by (simp add: demoteRow_def)
  have nil: "filter (\<lambda>a. ad_userId a = uid \<and> ad_isCurrent a) (map (demoteRow uid None) xs) = []" for xs :: "'a address list"
    by (induction xs) (simp_all add: pt)
  from address_POST_cases[OF assms(1)]
  obtain isCurrent rest' where c: "createAddressSchema json = Some (isCurrent, rest')"
    and s': "s' = \<lparr>addresses = map (if isCurrent then demoteRow uid None else (\<lambda>a. a)) (addresses s) @
                 [\<lparr>ad_id = ad_nextId s, ad_userId = uid, ad_isCurrent = isCurrent, ad_rest = rest'\<rparr>],
              ad_nextId = Suc (ad_nextId s)\<rparr>"
    by (elim disjE exE conjE) simp_all
  from c assms(2) have "isCurrent" by simp
  then show ?thesis by (simp add: s' currentAddresses_def nil)
qed

lemma address_PUT_current_rows:
  assumes ok: "addressesOK s"
    and a: "a \<in> set (addresses s)" "ad_id a = i" "ad_userId a = uid"
  shows "filter (\<lambda>a. ad_userId a = uid \<and> ad_isCurrent a)
           (map (\<lambda>x. updateRow i uid (Some True) f
                   ((if \<not> ad_isCurrent a then demoteRow uid (Some i) else (\<lambda>a. a)) x)) (addresses s))
         = [updateRow i uid (Some True) f a]"
proof -
  let ?h = "if \<not> ad_isCurrent a then demoteRow uid (Some i) else (\<lambda>a. a)"
  let ?P = "\<lambda>a. ad_userId a = uid \<and> ad_isCurrent a"
  have d: "distinct (map ad_id (addresses s))" using ok by (simp add: addressesOK_def)
  have one: "length (filter ?P (addresses s)) \<le> 1"
    using ok by (simp add: addressesOK_def currentAddresses_def)
  have ha: "?h a = a" using a by (simp add: demoteRow_def)
  have iff: "?P (updateRow i uid (Some True) f (?h x)) \<longleftrightarrow> ad_id x = ad_id a" if x: "x \<in> set (addresses s)" for x
  proof (cases "ad_id x = i")
    case True
    then have "x = a" using same_ad_id[OF d x a(1)] a(2) by simp
    then show ?thesis using a ha by (simp add: updateRow_def)
  next
    case False
    have "\<not> ?P (?h x)"
    proof (cases "ad_isCurrent a")
      case True
      have "?P x \<Longrightarrow> x = a"
        using length_le_1_same[OF one x a(1), of] True a(3) by blast
      with False a(2) True show ?thesis by auto
    next
      case nc: False
      then show ?thesis using False by (auto simp: demoteRow_def)
    qed
    moreover have "updateRow i uid (Some True) f (?h x) = ?h x"
      using False by (auto simp: updateRow_def)
    ultimately show ?thesis using False a(2) by simp
  qed
  have "filter ?P (map (\<lambda>x. updateRow i uid (Some True) f (?h x)) (addresses s))
      = [updateRow i uid (Some True) f (?h a)]"
    by (rule filter_map_single[where f = ad_id, OF d a(1)]) (rule iff)
  then show ?thesis by (simp only: ha)
qed

lemma address_PUT_current:
  assumes ok: "addressesOK s"
    and put: "address_PUT (Some uid) i json s = (200, s')"
    and p: "updateAddressSchema json = Some (Some True, f)"
  shows "map ad_id (currentAddresses uid s') = [i]"
proof -
  from address_PUT_cases[OF put] p obtain a where
    a: "a \<in> set (addresses s)" "ad_id a = i" "ad_userId a = uid" and
    s': "s' = s\<lparr>addresses := map (updateRow i uid (Some True) f)
                 (map (if \<not> ad_isCurrent a then demoteRow uid (Some i) else (\<lambda>a. a)) (addresses s))\<rparr>"
    by auto
  show ?thesis
    using address_PUT_current_rows[OF ok a, of f] a(2)
    by (simp add: s' currentAddresses_def comp_def)
qed

lemma demote_none_nil:
  "filter (\<lambda>a. ad_userId a = uid \<and> ad_isCurrent a) (map (demoteRow uid None) xs) = []"
proof -
  have pt: "ad_userId a = uid \<longrightarrow> \<not> ad_isCurrent (demoteRow uid None a)" for a :: "'a address"
    by (simp add: demoteRow_def)
  show ?thesis by (induction xs) (simp_all add: pt)
qed

lemma demote_other_user:
  "u \<noteq> uid \<Longrightarrow> ad_userId (demoteRow uid ex a) = u \<and> ad_isCurrent (demoteRow uid ex a) \<Longrightarrow>
     ad_userId a = u \<and> ad_isCurrent a"
  by (simp add: demoteRow_def split: if_splits)

lemma update_other_user:
  "u \<noteq> uid \<Longrightarrow> ad_userId (updateRow i uid c f a) = u \<and> ad_isCurrent (updateRow i uid c f a) \<Longrightarrow>
     ad_userId a = u \<and> ad_isCurrent a"
  by (simp add: updateRow_def split: if_splits)

lemma update_not_true:
  "c \<noteq> Some True \<Longrightarrow> ad_userId (updateRow i uid c f a) = u \<and> ad_isCurrent (updateRow i uid c f a) \<Longrightarrow>
     ad_userId a = u \<and> ad_isCurrent a"
  by (cases c) (auto simp: updateRow_def split: if_splits)

lemma map_ad_id_demote: "map ad_id (map (demoteRow uid ex) xs) = map ad_id xs"
  by (induction xs) simp_all

lemma map_ad_id_update: "map ad_id (map (updateRow i uid c f) xs) = map ad_id xs"
  by (induction xs) simp_all

lemma address_POST_addressesOK:
  fixes s :: "'r address_db"
  assumes ok: "addressesOK s" and post: "address_POST ss json s = (st, s')"
  shows "addressesOK s'"
  using address_POST_cases[OF post]
proof (elim disjE exE conjE)
  assume "s' = s" with ok show ?thesis by simp
next
  fix uid isCurrent and rest :: 'r
  let ?new = "\<lparr>ad_id = ad_nextId s, ad_userId = uid, ad_isCurrent = isCurrent, ad_rest = rest\<rparr>"
  let ?h = "if isCurrent then demoteRow uid None else (\<lambda>a. a)"
  assume s': "s' = \<lparr>addresses = map ?h (addresses s) @ [?new], ad_nextId = Suc (ad_nextId s)\<rparr>"
  have ids: "map ad_id (map ?h (addresses s)) = map ad_id (addresses s)"
    by (simp add: map_ad_id_demote)
  have d: "distinct (map ad_id (addresses s))" and lt: "\<forall>a\<in>set (addresses s). ad_id a < ad_nextId s"
    and one: "\<And>u. length (filter (\<lambda>a. ad_userId a = u \<and> ad_isCurrent a) (addresses s)) \<le> 1"
    using ok by (simp_all add: addressesOK_def currentAddresses_def)
  have d': "distinct (map ad_id (addresses s'))"
  proof -
    have "map ad_id (addresses s') = map ad_id (addresses s) @ [ad_nextId s]"
      unfolding s' using ids by simp
    moreover have "ad_nextId s \<notin> set (map ad_id (addresses s))" using lt by auto
    ultimately show ?thesis using d by simp
  qed
  have lt': "\<forall>a\<in>set (addresses s'). ad_id a < ad_nextId s'"
  proof
    fix a assume "a \<in> set (addresses s')"
    then have "ad_id a \<in> set (map ad_id (addresses s'))" by simp
    also have "map ad_id (addresses s') = map ad_id (addresses s) @ [ad_nextId s]"
      unfolding s' using ids by simp
    finally show "ad_id a < ad_nextId s'" using lt by (auto simp: s')
  qed
  define ys where "ys = map ?h (addresses s)"
  have as': "addresses s' = ys @ [?new]" by (simp add: s' ys_def)
  have one': "length (filter (\<lambda>a. ad_userId a = u \<and> ad_isCurrent a) (addresses s')) \<le> 1" for u
  proof (cases "isCurrent \<and> u = uid")
    case True
    then have "filter (\<lambda>a. ad_userId a = u \<and> ad_isCurrent a) ys = []"
      unfolding ys_def by (simp add: demote_none_nil)
    then show ?thesis unfolding as' by simp
  next
    case False
    have "length (filter (\<lambda>a. ad_userId a = u \<and> ad_isCurrent a) ys)
        \<le> length (filter (\<lambda>a. ad_userId a = u \<and> ad_isCurrent a) (addresses s))"
      unfolding ys_def
    proof (rule length_filter_map_le)
      fix x assume "ad_userId (?h x) = u \<and> ad_isCurrent (?h x)"
      then show "ad_userId x = u \<and> ad_isCurrent x"
        using False demote_other_user[of u uid None x] by (cases isCurrent) auto
    qed
    moreover have "\<not> (ad_userId ?new = u \<and> ad_isCurrent ?new)"
      using False by (cases isCurrent) auto
    ultimately show ?thesis using one[of u] unfolding as' by auto
  qed
  show ?thesis using d' lt' one' by (simp add: addressesOK_def currentAddresses_def)
qed

lemma address_PUT_addressesOK:
  fixes s :: "'r address_db"
  assumes ok: "addressesOK s" and put: "address_PUT ss i json s = (st, s')"
  shows "addressesOK s'"
  using address_PUT_cases[OF put]
proof (elim disjE exE conjE)
  assume "s' = s" with ok show ?thesis by simp
next
  fix uid isCurrent and f :: "'r \<Rightarrow> 'r" and a :: "'r address"
  let ?h = "if isCurrent = Some True \<and> \<not> ad_isCurrent a then demoteRow uid (Some i) else (\<lambda>a. a)"
  assume a: "a \<in> set (addresses s)" "ad_id a = i" "ad_userId a = uid"
    and s': "s' = s\<lparr>addresses := map (updateRow i uid isCurrent f) (map ?h (addresses s))\<rparr>"
  have d: "distinct (map ad_id (addresses s))" and lt: "\<forall>a\<in>set (addresses s). ad_id a < ad_nextId s"
    and one: "\<And>u. length (filter (\<lambda>a. ad_userId a = u \<and> ad_isCurrent a) (addresses s)) \<le> 1"
    using ok by (simp_all add: addressesOK_def currentAddresses_def)
  have ids: "map ad_id (addresses s') = map ad_id (addresses s)"
    unfolding s' by (cases "isCurrent = Some True \<and> \<not> ad_isCurrent a")
      (simp_all add: map_ad_id_update map_ad_id_demote del: map_map)
  have d': "distinct (map ad_id (addresses s'))" using d ids by simp
  have lt': "\<forall>a\<in>set (addresses s'). ad_id a < ad_nextId s'"
  proof
    fix x assume "x \<in> set (addresses s')"
    then have "ad_id x \<in> set (map ad_id (addresses s'))" by simp
    then have "ad_id x \<in> set (map ad_id (addresses s))" by (simp only: ids)
    then show "ad_id x < ad_nextId s'" using lt by (auto simp: s')
  qed
  define g where "g = (\<lambda>x. updateRow i uid isCurrent f (?h x))"
  have as': "addresses s' = map g (addresses s)" by (simp add: s' g_def)
  have one': "length (filter (\<lambda>a. ad_userId a = u \<and> ad_isCurrent a) (addresses s')) \<le> 1" for u
  proof (cases "isCurrent = Some True \<and> u = uid")
    case True
    have "filter (\<lambda>a. ad_userId a = uid \<and> ad_isCurrent a) (map g (addresses s))
        = [updateRow i uid (Some True) f a]"
      using address_PUT_current_rows[OF ok a, of f] True by (simp add: g_def)
    then show ?thesis using True by (simp add: as')
  next
    case False
    have "length (filter (\<lambda>a. ad_userId a = u \<and> ad_isCurrent a) (map g (addresses s)))
        \<le> length (filter (\<lambda>a. ad_userId a = u \<and> ad_isCurrent a) (addresses s))"
    proof (rule length_filter_map_le)
      fix x assume g: "ad_userId (g x) = u \<and> ad_isCurrent (g x)"
      show "ad_userId x = u \<and> ad_isCurrent x"
      proof (cases "isCurrent = Some True")
        case True
        with False have ne: "u \<noteq> uid" by simp
        from g have "ad_userId (?h x) = u \<and> ad_isCurrent (?h x)"
          unfolding g_def by (rule update_other_user[OF ne])
        then show ?thesis
          using demote_other_user[OF ne, of "Some i" x] by (auto split: if_splits)
      next
        case nt: False
        then have "?h x = x" by simp
        with g show ?thesis
          unfolding g_def using update_not_true[OF nt, of i uid f x u] by simp
      qed
    qed
    then show ?thesis using one[of u] by (simp add: as')
  qed
  show ?thesis using d' lt' one' by (simp add: addressesOK_def currentAddresses_def)
qed

lemma address_DELETE_addressesOK:
  assumes ok: "addressesOK s" and del: "address_DELETE ss i s = (st, s')"
  shows "addressesOK s'"
proof (cases "s' = s")
  case True
  with ok show ?thesis by simp
next
  case False
  with del obtain uid where
    s': "s' = s\<lparr>addresses := filter (\<lambda>a. \<not> (ad_id a = i \<and> ad_userId a = uid)) (addresses s)\<rparr>"
    by (auto simp: address_DELETE_def split: option.splits if_splits)
  have "length (filter P (filter Q (addresses s))) \<le> 1" if "length (filter P (addresses s)) \<le> 1"
    for P Q :: "'a address \<Rightarrow> bool"
    using that length_filter_filter_le[of P Q "addresses s"] by linarith
  then show ?thesis
    using ok by (simp add: s' addressesOK_def currentAddresses_def distinct_map_filter)
qed

lemma reachable_addressesOK: "address_reachable s \<Longrightarrow> addressesOK s"
proof (induction rule: address_reachable.induct)
  case (address_init s)
  then show ?case by (simp add: addressesOK_def currentAddresses_def)
next
  case (address_step s r status s')
  then show ?case
    by (cases r) (auto dest: address_POST_addressesOK address_PUT_addressesOK address_DELETE_addressesOK)
qed

subsection \<open>The trend over stored dates\<close>


subsection \<open>What the locked branch of PUT leaves alone, and what no PUT changes\<close>

lemma applyUpdate_locked_amounts:
  "(\<lambda>e. (be_id e, be_balanceOriginal e, be_exchangeRateToBase e, be_balanceInBase e))
     (applyUpdate \<lparr>u_balanceOriginal = None, u_exchangeRateToBase = Undefined,
        u_balanceInBase = Undefined, u_notes = n, u_locked = l\<rparr> e)
   = (be_id e, be_balanceOriginal e, be_exchangeRateToBase e, be_balanceInBase e)"
  by (simp add: applyUpdate_def)

lemma PUT_locked_amounts:
  assumes "\<forall>e\<in>set (balanceEntries s). be_id e = i \<longrightarrow> be_locked e"
  shows "map (\<lambda>e. (be_id e, be_balanceOriginal e, be_exchangeRateToBase e, be_balanceInBase e))
           (balanceEntries (snd (PUT L session i json s)))
         = map (\<lambda>e. (be_id e, be_balanceOriginal e, be_exchangeRateToBase e, be_balanceInBase e))
           (balanceEntries s)"
proof -
  obtain st s' where p: "PUT L session i json s = (st, s')" by (cases "PUT L session i json s")
  from PUT_cases[OF p] show ?thesis
  proof (elim disjE exE conjE)
    assume "s' = s" then show ?thesis by (simp add: p)
  next
    fix uid existingEntry u
    assume f: "find (\<lambda>e. be_id e = i \<and> be_userId e = uid) (balanceEntries s) = Some existingEntry"
      and u: "if be_locked existingEntry
         then (\<exists>n l. updateLockedBalanceEntrySchema json = Some (n, l) \<and>
                 u = \<lparr>u_balanceOriginal = None, u_exchangeRateToBase = Undefined,
                       u_balanceInBase = Undefined, u_notes = n, u_locked = l\<rparr>)
         else (\<exists>data. updateBalanceEntrySchema L json = Some data \<and> u = unlockedUpdate existingEntry data)"
      and s': "s' = s\<lparr>balanceEntries := map (\<lambda>e. if be_id e = i then applyUpdate u e else e) (balanceEntries s)\<rparr>"
    from find_SomeD[OF f] assms have "be_locked existingEntry" by blast
    with u obtain n l where u': "u = \<lparr>u_balanceOriginal = None, u_exchangeRateToBase = Undefined,
                       u_balanceInBase = Undefined, u_notes = n, u_locked = l\<rparr>" by auto
    have "map (\<lambda>e. (be_id e, be_balanceOriginal e, be_exchangeRateToBase e, be_balanceInBase e))
            (map (\<lambda>e. if be_id e = i then applyUpdate u e else e) xs)
          = map (\<lambda>e. (be_id e, be_balanceOriginal e, be_exchangeRateToBase e, be_balanceInBase e)) xs" for xs
      unfolding u' by (induction xs) (simp_all add: applyUpdate_def)
    then show ?thesis by (simp add: p s')
  qed
qed

lemma normalize_firstOfMonth:
  assumes "\<not> (0 \<le> utcFullYear d \<and> utcFullYear d \<le> 99)"
    and "normalizeToFirstOfMonthUTC (Some d) = Some dt"
  shows "dt = firstOfMonth d"
  using assms
  by (auto simp: normalizeToFirstOfMonthUTC_def Date_UTC_def MakeFullYear_def firstOfMonth_def Let_def
      split: if_splits)

lemma PUT_keeps_entryDate:
  "map be_entryDate (balanceEntries (snd (PUT L session i json s))) = map be_entryDate (balanceEntries s)"
proof -
  obtain st s' where p: "PUT L session i json s = (st, s')" by (cases "PUT L session i json s")
  have "map be_entryDate (map (\<lambda>e. if be_id e = i then applyUpdate u e else e) xs) = map be_entryDate xs"
    for u xs by (induction xs) simp_all
  with PUT_cases[OF p] show ?thesis by (auto simp: p)
qed

lemmas address_defs = sampleAddress_def sampleAddressDb_def sampleAddressCreate_def sampleAddressUpdate_def
  address_POST_def address_PUT_def createAddressSchema_def updateAddressSchema_def demoteCurrent_def
  address_update_def currentAddresses_def Let_def

section \<open>The claims\<close>





text \<open>
  C3. An update request on an entry whose \<open>locked\<close> flag is true leaves the
  \<open>balanceOriginal\<close> and \<open>exchangeRateToBase\<close> of every entry as they were,
  whatever the payload holds and whatever the answer is, also when the payload sets
  \<open>locked\<close> to false.
\<close>

theorem locked_amounts_unchanged:
  assumes "\<forall>e\<in>set (balanceEntries s). be_id e = i \<longrightarrow> be_locked e"
  shows "map (\<lambda>e. (be_id e, be_balanceOriginal e, be_exchangeRateToBase e))
           (balanceEntries (snd (PUT L session i json s)))
         = map (\<lambda>e. (be_id e, be_balanceOriginal e, be_exchangeRateToBase e)) (balanceEntries s)"
proof -
  have "map (\<lambda>q. (fst q, fst (snd q), fst (snd (snd q))))
          (map (\<lambda>e. (be_id e, be_balanceOriginal e, be_exchangeRateToBase e, be_balanceInBase e))
             (balanceEntries (snd (PUT L session i json s))))
      = map (\<lambda>q. (fst q, fst (snd q), fst (snd (snd q))))
          (map (\<lambda>e. (be_id e, be_balanceOriginal e, be_exchangeRateToBase e, be_balanceInBase e))
             (balanceEntries s))"
    by (simp only: PUT_locked_amounts[OF assms])
  then show ?thesis by (simp add: comp_def)
qed

text \<open>
  A locked entry with balance 100 and rate 2, and a payload asking for 999 and 3.
\<close>

theorem locked_amounts_unchanged_witness:
  "map (\<lambda>e. (be_id e, be_balanceOriginal e, be_exchangeRateToBase e))
     (balanceEntries (snd (PUT sampleLib (Some ''u1'') 0
        (sampleUpdate (JNum 999) (JNum 3) (JStr ''checked'') JAbsent)
        (sampleDb [sampleEntry 0 ''savings'' 0 100 (Some 2) 200 True]))))
   = [(0, 100, Some 2)]"
  using locked_amounts_unchanged[of "sampleDb [sampleEntry 0 ''savings'' 0 100 (Some 2) 200 True]" 0
      sampleLib "Some ''u1''" "sampleUpdate (JNum 999) (JNum 3) (JStr ''checked'') JAbsent"]
  by (simp add: sampleDb_def sampleEntry_def)




text \<open>
  C5 fails on the code. An unlocked entry with balance 100, rate 2 and base balance 200
  is sent a payload with \<open>notes\<close> only. The preprocessing of \<open>exchangeRateToBase\<close>
  turns the absent key into \<open>null\<close>, so the handler takes the rate as given: it
  stores no rate and a base balance of 100.
\<close>

theorem notes_only_update_clears_rate:
  "PUT sampleLib (Some ''u1'') 0 (sampleUpdate JAbsent JAbsent (JStr ''checked'') JAbsent)
     (sampleDb [sampleEntry 0 ''savings'' 0 100 (Some 2) 200 False])
   = (200, sampleDb [(sampleEntry 0 ''savings'' 0 100 None 100 False)\<lparr>be_notes := Some ''checked''\<rparr>])"
  by (simp add: sample_defs sampleUpdate_def put_defs)

text \<open>
  C6. In every database the routes can produce there is at most one balance entry per
  account and UTC month. A create request whose date falls in the month of an existing
  entry of the same account writes nothing; when it passes the checks that come before
  the write (session, account owned by the user, matching currency) it is answered 409.
\<close>

theorem one_entry_per_account_month:
  assumes "reachable L s"
  shows "length (filter (\<lambda>e. be_accountId e = a \<and> utcFullYear (be_entryDate e) = y \<and>
                           utcMonth (be_entryDate e) = m) (balanceEntries s)) \<le> 1 \<and>
         (createBalanceEntrySchema L json = Some data \<and> e \<in> set (balanceEntries s) \<and>
          be_accountId e = d_accountId data \<and>
          utcFullYear (be_entryDate e) = utcFullYear (d_entryDate data) \<and>
          utcMonth (be_entryDate e) = utcMonth (d_entryDate data)
          \<longrightarrow> snd (POST L session json s) = s \<and>
              (session = Some uid \<and>
               find (\<lambda>a. acc_id a = d_accountId data) (accounts s) = Some account \<and>
               acc_userId account = uid \<and>
               toUpperCase L (acc_currency account) = toUpperCase L (d_currency data)
               \<longrightarrow> fst (POST L session json s) = 409))"
proof (intro conjI impI)
  show "length (filter (\<lambda>e. be_accountId e = a \<and> utcFullYear (be_entryDate e) = y \<and>
                           utcMonth (be_entryDate e) = m) (balanceEntries s)) \<le> 1"
    by (rule at_most_one_per_month[OF assms])
next
  assume h: "createBalanceEntrySchema L json = Some data \<and> e \<in> set (balanceEntries s) \<and>
          be_accountId e = d_accountId data \<and>
          utcFullYear (be_entryDate e) = utcFullYear (d_entryDate data) \<and>
          utcMonth (be_entryDate e) = utcMonth (d_entryDate data)"
  then show "snd (POST L session json s) = s"
    using POST_same_month(1)[OF assms, of json data e session] by blast
  assume g: "session = Some uid \<and>
               find (\<lambda>a. acc_id a = d_accountId data) (accounts s) = Some account \<and>
               acc_userId account = uid \<and>
               toUpperCase L (acc_currency account) = toUpperCase L (d_currency data)"
  with h show "fst (POST L session json s) = 409"
    using POST_same_month(2)[OF assms, of json data e session uid account] by blast
qed

text \<open>
  A second create for the savings account in January 2024, on its last millisecond.
\<close>

theorem one_entry_per_account_month_witness:
  "reachable sampleLib (sampleDb [sampleEntry 0 ''savings'' 0 100 (Some 2) 200 False]) \<and>
   length (filter (\<lambda>e. be_accountId e = ''savings'' \<and> utcFullYear (be_entryDate e) = 2024 \<and>
                        utcMonth (be_entryDate e) = 0)
             (balanceEntries (sampleDb [sampleEntry 0 ''savings'' 0 100 (Some 2) 200 False]))) \<le> 1 \<and>
   POST sampleLib (Some ''u1'') (sampleCreate ''savings'' ''2024-01-31T23:59:59.999Z'' 5 JAbsent)
     (sampleDb [sampleEntry 0 ''savings'' 0 100 (Some 2) 200 False])
   = (409, sampleDb [sampleEntry 0 ''savings'' 0 100 (Some 2) 200 False])"
proof -
  let ?s = "sampleDb [sampleEntry 0 ''savings'' 0 100 (Some 2) 200 False]"
  let ?j = "sampleCreate ''savings'' ''2024-01-31T23:59:59.999Z'' 5 JAbsent"
  let ?data = "\<lparr>d_accountId = ''savings'',
      d_entryDate = \<lparr>utcFullYear = 2024, utcMonth = 0, utcDate = 31, utcMs = 86399999\<rparr>,
      d_balanceOriginal = 5, d_currency = ''usd'', d_exchangeRateToBase = Null,
      d_notes = Undefined, d_locked = False\<rparr>"
  have r0: "reachable sampleLib (sampleDb [])"
    by (rule reachable.init) (simp add: sampleDb_def)
  have h: "handle sampleLib (Post (Some ''u1'') (sampleCreate ''savings'' ''2024-01-15T10:30:00.000Z'' 100 (JNum 2)))
     (sampleDb []) = (201, ?s)"
    by (simp add: sample_defs post_defs)
  have r: "reachable sampleLib ?s" by (rule reachable.step[OF r0 h])
  have p: "createBalanceEntrySchema sampleLib ?j = Some ?data"
    by (simp add: sample_defs createBalanceEntrySchema_def)
  have e: "sampleEntry 0 ''savings'' 0 100 (Some 2) 200 False \<in> set (balanceEntries ?s)"
    by (simp add: sampleDb_def)
  have a: "find (\<lambda>a. acc_id a = d_accountId ?data) (accounts ?s)
      = Some \<lparr>acc_id = ''savings'', acc_userId = ''u1'', acc_currency = ''USD'', acc_assetCategory = Some ASSET\<rparr>"
    by (simp add: sampleDb_def sampleAccounts_def)
  note t = one_entry_per_account_month[OF r, where a = "''savings''" and y = 2024 and m = 0
      and json = ?j and data = ?data
      and e = "sampleEntry 0 ''savings'' 0 100 (Some 2) 200 False" and session = "Some ''u1''" and uid = "''u1''"
      and account = "\<lparr>acc_id = ''savings'', acc_userId = ''u1'', acc_currency = ''USD'', acc_assetCategory = Some ASSET\<rparr>"]
  have c: "snd (POST sampleLib (Some ''u1'') ?j ?s) = ?s \<and> fst (POST sampleLib (Some ''u1'') ?j ?s) = 409"
    using t p e a by (simp add: sampleEntry_def sampleLib_def)
  then have "POST sampleLib (Some ''u1'') ?j ?s = (409, ?s)"
    by (cases "POST sampleLib (Some ''u1'') ?j ?s") simp
  with r t show ?thesis by blast
qed

text \<open>
  C7 fails on the code. User u1 has three accounts; the only balance entry belongs to the
  account without a category. It adds nothing to the sums, yet the counter that becomes
  \<open>accountsWithBalancesCounted\<close> is 1: the handler increments it before it looks at
  the category.
\<close>

theorem summary_counts_uncategorised:
  "netWorthSummary (Some ''u1'') (sampleDb [sampleEntry 0 ''wallet'' 0 100 None 100 False])
   = Inr \<lparr>sm_totalAssets = 0, sm_totalLiabilities = 0, sm_netWorth = 0,
          sm_lastUpdatedDate = Some \<lparr>utcFullYear = 2024, utcMonth = 0, utcDate = 1, utcMs = 0\<rparr>,
          sm_accountsConsidered = 3, sm_accountsWithBalancesCounted = 1\<rparr>"
  by (simp add: sample_defs netWorthSummary_def summaryStep_def latestBalanceEntries_def)




text \<open>
  C9. In every address table the routes can produce, a completed create that sets
  \<open>isCurrent\<close> leaves the new address as the only current address of the user, and a
  completed update that sets \<open>isCurrent\<close> leaves the updated address as the only
  one, whether or not another address was current before.
\<close>

theorem one_current_address:
  assumes "address_reachable s"
  shows "(address_POST (Some uid) json s = (201, s') \<and> createAddressSchema json = Some (True, rest)
            \<longrightarrow> map ad_id (currentAddresses uid s') = [ad_nextId s]) \<and>
         (address_PUT (Some uid) i ujson s = (200, s'') \<and> updateAddressSchema ujson = Some (Some True, f)
            \<longrightarrow> map ad_id (currentAddresses uid s'') = [i])"
  using address_POST_current[of uid json s s' rest]
    address_PUT_current[OF reachable_addressesOK[OF assms], of uid i ujson s'' f]
  by blast

text \<open>
  Two addresses, the second current: a third is created as current, or the first is
  updated to current.
\<close>

theorem one_current_address_witness:
  "address_reachable (sampleAddressDb [sampleAddress 0 False, sampleAddress 1 True]) \<and>
   address_POST (Some ''u1'') sampleAddressCreate (sampleAddressDb [sampleAddress 0 False, sampleAddress 1 True])
     = (201, sampleAddressDb [sampleAddress 0 False, sampleAddress 1 False, sampleAddress 2 True]) \<and>
   map ad_id (currentAddresses ''u1''
       (sampleAddressDb [sampleAddress 0 False, sampleAddress 1 False, sampleAddress 2 True])) = [2] \<and>
   address_PUT (Some ''u1'') 0 sampleAddressUpdate (sampleAddressDb [sampleAddress 0 False, sampleAddress 1 True])
     = (200, sampleAddressDb [sampleAddress 0 True, sampleAddress 1 False]) \<and>
   map ad_id (currentAddresses ''u1'' (sampleAddressDb [sampleAddress 0 True, sampleAddress 1 False])) = [0]"
proof -
  let ?s = "sampleAddressDb [sampleAddress 0 False, sampleAddress 1 True]"
  have r0: "address_reachable (sampleAddressDb [])"
    by (rule address_init) (simp add: sampleAddressDb_def)
  have h1: "address_handle (AddressPost (Some ''u1'') sampleAddressCreate) (sampleAddressDb [])
      = (201, sampleAddressDb [sampleAddress 0 True])"
    by (simp add: address_defs)
  have h2: "address_handle (AddressPost (Some ''u1'') sampleAddressCreate) (sampleAddressDb [sampleAddress 0 True])
      = (201, ?s)"
    by (simp add: address_defs)
  have r: "address_reachable ?s"
    by (rule address_step[OF address_step[OF r0 h1] h2])
  have p: "address_POST (Some ''u1'') sampleAddressCreate ?s
     = (201, sampleAddressDb [sampleAddress 0 False, sampleAddress 1 False, sampleAddress 2 True])"
    by (simp add: address_defs)
  have u: "address_PUT (Some ''u1'') 0 sampleAddressUpdate ?s
     = (200, sampleAddressDb [sampleAddress 0 True, sampleAddress 1 False])"
    by (simp add: address_defs)
  have c: "createAddressSchema sampleAddressCreate = Some (True, ())"
    "updateAddressSchema sampleAddressUpdate = Some (Some True, \<lambda>r. r)"
    by (simp_all add: address_defs)
  have n: "ad_nextId ?s = 2" by (simp add: sampleAddressDb_def)
  from one_current_address[OF r, where uid = "''u1''" and json = sampleAddressCreate and rest = "()"
      and s' = "sampleAddressDb [sampleAddress 0 False, sampleAddress 1 False, sampleAddress 2 True]"
      and i = 0 and ujson = sampleAddressUpdate and f = "\<lambda>r. r"
      and s'' = "sampleAddressDb [sampleAddress 0 True, sampleAddress 1 False]"]
    r p u c n
  show ?thesis by simp
qed

text \<open>
  C10 fails on the code. A create request dated 15 March of the year 50 is stored under
  1 March 1950: \<open>Date.UTC\<close> reads a year from 0 to 99 as 1900 + year, so the stored
  date is not the first day of the month of the date submitted.
\<close>

theorem two_digit_year_stored_as_1900s:
  "POST sampleLib (Some ''u1'') (sampleCreate ''savings'' ''0050-03-15T00:00:00.000Z'' 100 JAbsent) (sampleDb [])
   = (201, \<lparr>accounts = sampleAccounts,
            balanceEntries = [\<lparr>be_id = 0, be_accountId = ''savings'', be_userId = ''u1'',
               be_entryDate = \<lparr>utcFullYear = 1950, utcMonth = 2, utcDate = 1, utcMs = 0\<rparr>,
               be_balanceOriginal = 100, be_currency = ''USD'', be_exchangeRateToBase = None,
               be_balanceInBase = Some 100, be_locked = False, be_notes = None\<rparr>],
            nextId = 1\<rparr>)"
  by (simp add: sample_defs post_defs)

end
